theory Spec2Isabelle
  imports Complex_Main
begin

section \<open>Catalog API: data model\<close>

text \<open>
  The embedding follows \<^verbatim>\<open>app.py\<close>. Each view function is a HOL function that takes
  the database and the request and returns the response together with the database
  after the request. A request body is the dictionary that \<^verbatim>\<open>request.get_json()\<close>
  returns for a JSON object; a field value is any value that the JSON decoder produces.
  \<open>JInt\<close> is a Python int and \<open>JNum\<close> a finite Python float, written as the rational
  it stands for; \<open>JSpecial\<close> is one of the floats that are not numbers of this kind (the
  decoder reads \<^verbatim>\<open>1e400\<close> as infinity).
\<close>

datatype special = PosInf | NegInf | NaN

datatype jval =
    JNull
  | JBool bool
  | JInt int
  | JNum rat
  | JSpecial special
  | JStr string
  | JArr "jval list"
  | JObj "(string \<times> jval) list"

type_synonym payload = "string \<rightharpoonup> jval"

text \<open>Python truthiness, as used by \<^verbatim>\<open>not data[field]\<close>.\<close>

fun truthy :: "jval \<Rightarrow> bool" where
  "truthy JNull = False"
| "truthy (JBool b) = b"
| "truthy (JInt i) = (i \<noteq> 0)"
| "truthy (JNum r) = (r \<noteq> 0)"
| "truthy (JSpecial x) = True"
| "truthy (JStr s) = (s \<noteq> [])"
| "truthy (JArr xs) = (xs \<noteq> [])"
| "truthy (JObj kvs) = (kvs \<noteq> [])"

text \<open>\<^verbatim>\<open>data.get(key, default)\<close>.\<close>

definition dict_get :: "payload \<Rightarrow> string \<Rightarrow> jval \<Rightarrow> jval" where
  "dict_get data k d = (case data k of None \<Rightarrow> d | Some v \<Rightarrow> v)"

text \<open>
  The two mapped classes, with the values that the columns hold: text in the
  \<^verbatim>\<open>String\<close> and \<^verbatim>\<open>Text\<close> columns (\<open>None\<close> is NULL in the two that are nullable), a
  float in the \<^verbatim>\<open>Float\<close> column. Timestamps are readings of the database clock. The
  \<^verbatim>\<open>role\<close> column is \<^verbatim>\<open>nullable=False\<close> with a column default, so a stored row
  always has a role string.
\<close>

datatype pyfloat = Finite rat | Infinity | NegInfinity

record User =
  user_id :: nat
  username :: string
  email :: string
  password_hash :: string
  role :: string

record Products =
  product_id :: nat
  name :: string
  description :: "string option"
  price :: pyfloat
  product_image_url :: "string option"
  created_by :: nat
  created_at :: nat
  updated_at :: nat

text \<open>
  The database: the two tables, and what the engine makes of a bound parameter where the
  source does not decide it. \<open>text_conv\<close> is the text that a \<^verbatim>\<open>String\<close> column stores
  for, and compares with, a bound number or boolean; \<open>float_conv\<close> is the result of the
  \<^verbatim>\<open>float()\<close> that the \<^verbatim>\<open>Float\<close> column applies to a bound string, to an int beyond
  \<open>2^53\<close> or to a NaN. \<open>None\<close> means that the statement raises.
\<close>

record database =
  users :: "User list"
  products :: "Products list"
  text_conv :: "jval \<Rightarrow> string option"
  float_conv :: "jval \<Rightarrow> pyfloat option"

definition empty_db ::
  "(jval \<Rightarrow> string option) \<Rightarrow> (jval \<Rightarrow> pyfloat option) \<Rightarrow> database" where
  "empty_db tc fc = \<lparr>users = [], products = [], text_conv = tc, float_conv = fc\<rparr>"

text \<open>
  The bearer token of a request, as the JWT decorator classifies it: absent, a valid
  access token or a valid refresh token with the identity it carries, expired, or not
  verifiable. A valid token is one that the login or the refresh view has issued.
\<close>

datatype token = NoToken | AccessToken jval | RefreshToken jval | ExpiredToken | InvalidToken

text \<open>
  Exceptions that the views do not catch, and the ways a request ends without the view
  returning a response of its own: \<^verbatim>\<open>get_or_404\<close> aborts, an uncaught exception is
  answered with status 500, and the JWT decorator rejects the request.
  \<open>StatementError\<close> is the exception of a statement whose parameter cannot be bound or
  converted, \<open>IntegrityError\<close> that of a violated constraint.
\<close>

datatype exn = KeyError string | AttributeError | TypeError | StatementError | IntegrityError

datatype failure = NotFound | Unhandled exn | Rejected nat

text \<open>What \<^verbatim>\<open>jsonify\<close> is given, with the status code of the response.\<close>

datatype body =
    Msg string
  | MsgId string nat
  | ErrorText string
  | MsgError string string
  | ProductBody Products
  | ProductList "Products list"
  | LoginBody token token User
  | TokenBody token
  | FileBody

type_synonym response = "nat \<times> body"

type_synonym result = "failure + response"

fun status_code :: "result \<Rightarrow> nat" where
  "status_code (Inr (c, b)) = c"
| "status_code (Inl NotFound) = 404"
| "status_code (Inl (Unhandled e)) = 500"
| "status_code (Inl (Rejected c)) = c"



section \<open>Storage layer\<close>

text \<open>
  \<^verbatim>\<open>ROLES\<close> and \<^verbatim>\<open>ROLES.get\<close>: a key that is not one of the two strings has no entry,
  and a list or a dictionary as key raises \<^verbatim>\<open>TypeError\<close> (it is not hashable).
\<close>

definition ROLES :: "string \<rightharpoonup> string" where
  "ROLES = [''admin'' \<mapsto> ''admin'', ''user'' \<mapsto> ''user'']"

fun ROLES_get :: "jval \<Rightarrow> exn + string option" where
  "ROLES_get (JStr k) = Inr (ROLES k)"
| "ROLES_get (JArr xs) = Inl TypeError"
| "ROLES_get (JObj kvs) = Inl TypeError"
| "ROLES_get v = Inr None"


text \<open>
  A parameter bound to a \<^verbatim>\<open>String\<close> column, in a comparison or in an INSERT or UPDATE:
  a string is taken as it is, a list or a dictionary cannot be bound, and a number or
  boolean becomes the text that the column's affinity gives it. \<^verbatim>\<open>None\<close> is NULL and
  has no text.
\<close>

fun bind_text :: "(jval \<Rightarrow> string option) \<Rightarrow> jval \<Rightarrow> string option" where
  "bind_text conv (JStr t) = Some t"
| "bind_text conv JNull = None"
| "bind_text conv (JArr xs) = None"
| "bind_text conv (JObj kvs) = None"
| "bind_text conv v = conv v"

text \<open>
  A parameter bound to the \<^verbatim>\<open>Float\<close> column: the column applies \<^verbatim>\<open>float()\<close>. A float
  stays what it is, a boolean becomes 1.0 or 0.0, an int up to \<open>2^53\<close> becomes the float
  of the same value, and a list or a dictionary raises.
\<close>

fun bind_float :: "(jval \<Rightarrow> pyfloat option) \<Rightarrow> jval \<Rightarrow> pyfloat option" where
  "bind_float conv (JNum r) = Some (Finite r)"
| "bind_float conv (JBool b) = Some (Finite (of_bool b))"
| "bind_float conv (JInt i) =
     (if \<bar>i\<bar> \<le> 2 ^ 53 then Some (Finite (of_int i)) else conv (JInt i))"
| "bind_float conv (JSpecial PosInf) = Some Infinity"
| "bind_float conv (JSpecial NegInf) = Some NegInfinity"
| "bind_float conv JNull = None"
| "bind_float conv (JArr xs) = None"
| "bind_float conv (JObj kvs) = None"
| "bind_float conv v = conv v"

text \<open>
  \<^verbatim>\<open>User.query.filter_by(username=x).first()\<close> and the same for \<^verbatim>\<open>email\<close>: the first
  row whose column equals the bound parameter. The query raises when the parameter
  cannot be bound; for \<^verbatim>\<open>None\<close> it is an \<^verbatim>\<open>IS NULL\<close> test, which no row passes.
\<close>

definition bindable :: "database \<Rightarrow> jval \<Rightarrow> bool" where
  "bindable s x \<longleftrightarrow> x = JNull \<or> bind_text (text_conv s) x \<noteq> None"

definition filter_by_username :: "database \<Rightarrow> jval \<Rightarrow> User option" where
  "filter_by_username s x =
     (case bind_text (text_conv s) x of
        None \<Rightarrow> None
      | Some t \<Rightarrow> find (\<lambda>u. username u = t) (users s))"

definition filter_by_email :: "database \<Rightarrow> jval \<Rightarrow> User option" where
  "filter_by_email s x =
     (case bind_text (text_conv s) x of
        None \<Rightarrow> None
      | Some t \<Rightarrow> find (\<lambda>u. email u = t) (users s))"

text \<open>\<^verbatim>\<open>Products.query.get_or_404(product_id)\<close>: \<open>None\<close> is the abort with 404.\<close>

definition get_or_404 :: "database \<Rightarrow> nat \<Rightarrow> Products option" where
  "get_or_404 s pid = find (\<lambda>p. product_id p = pid) (products s)"

text \<open>
  An integer primary key without \<^verbatim>\<open>AUTOINCREMENT\<close>: the new row id is one more than
  the largest id in the table.
\<close>

definition next_id :: "nat list \<Rightarrow> nat" where
  "next_id ids = Suc (foldr max ids 0)"

text \<open>
  What the unit of work sends for one column: nothing, NULL, a converted value, or a
  parameter that cannot be bound or converted.
\<close>

datatype 'a sent = Unchanged | SendNull | Unbindable | Send 'a

definition new_text :: "(jval \<Rightarrow> string option) \<Rightarrow> jval \<Rightarrow> string sent" where
  "new_text conv v =
     (if v = JNull then SendNull
      else case bind_text conv v of None \<Rightarrow> Unbindable | Some t \<Rightarrow> Send t)"

definition new_float :: "(jval \<Rightarrow> pyfloat option) \<Rightarrow> jval \<Rightarrow> pyfloat sent" where
  "new_float conv v =
     (if v = JNull then SendNull
      else case bind_float conv v of None \<Rightarrow> Unbindable | Some f \<Rightarrow> Send f)"

text \<open>
  \<^verbatim>\<open>db.session.add(user); db.session.commit()\<close>. The unit of work leaves an attribute
  whose value is \<^verbatim>\<open>None\<close> out of the INSERT, so that a column with a default gets its
  default: a \<^verbatim>\<open>role\<close> of \<^verbatim>\<open>None\<close> is stored as \<^verbatim>\<open>ROLES['user']\<close>. The
  \<^verbatim>\<open>nullable=False\<close> and \<^verbatim>\<open>unique=True\<close> constraints of the other columns raise
  \<^verbatim>\<open>IntegrityError\<close>.
\<close>

definition insert_user ::
  "database \<Rightarrow> jval \<Rightarrow> jval \<Rightarrow> string \<Rightarrow> string option \<Rightarrow> exn + database" where
  "insert_user s un em ph r =
     (case (new_text (text_conv s) un, new_text (text_conv s) em) of
        (Send u, Send e) \<Rightarrow>
          if list_ex (\<lambda>x. username x = u) (users s) then Inl IntegrityError
          else if list_ex (\<lambda>x. email x = e) (users s) then Inl IntegrityError
          else Inr (s\<lparr>users := users s @
                 [\<lparr>user_id = next_id (map user_id (users s)), username = u, email = e,
                   password_hash = ph,
                   role = (case r of None \<Rightarrow> ''user'' | Some x \<Rightarrow> x)\<rparr>]\<rparr>)
      | (a, b) \<Rightarrow>
          if a = Unbindable \<or> b = Unbindable then Inl StatementError
          else Inl IntegrityError)"

text \<open>
  \<^verbatim>\<open>db.session.add(product); db.session.commit()\<close>. \<^verbatim>\<open>name\<close> and \<^verbatim>\<open>price\<close> are
  \<^verbatim>\<open>nullable=False\<close> and have no default; both timestamps take the server default
  \<^verbatim>\<open>now()\<close>. The parameters are converted before the statement is run, so a failed
  conversion takes precedence over a violated constraint. The id of the new row is
  returned with the database.
\<close>

definition nullable :: "string sent \<Rightarrow> string option" where
  "nullable c = (case c of Send t \<Rightarrow> Some t | _ \<Rightarrow> None)"

definition insert_product ::
  "database \<Rightarrow> nat \<Rightarrow> jval \<Rightarrow> jval \<Rightarrow> jval \<Rightarrow> jval \<Rightarrow> nat \<Rightarrow> exn + (nat \<times> database)" where
  "insert_product s now n d pr img owner =
     (let cn = new_text (text_conv s) n; cd = new_text (text_conv s) d;
          cp = new_float (float_conv s) pr; ci = new_text (text_conv s) img
      in if cn = Unbindable \<or> cd = Unbindable \<or> cp = Unbindable \<or> ci = Unbindable
         then Inl StatementError
         else case (cn, cp) of
           (Send t, Send f) \<Rightarrow>
             (let i = next_id (map product_id (products s)) in
              Inr (i, s\<lparr>products := products s @
                   [\<lparr>product_id = i, name = t, description = nullable cd, price = f,
                     product_image_url = nullable ci, created_by = owner,
                     created_at = now, updated_at = now\<rparr>]\<rparr>))
         | (a, b) \<Rightarrow> Inl IntegrityError)"

text \<open>
  Python's \<^verbatim>\<open>==\<close> between a value assigned to an attribute and the loaded value of
  the column (\<^verbatim>\<open>True == 1.0\<close>; an int and a float are compared by value).
\<close>

fun py_eq_text :: "jval \<Rightarrow> string option \<Rightarrow> bool" where
  "py_eq_text JNull None = True"
| "py_eq_text (JStr a) (Some t) = (a = t)"
| "py_eq_text v l = False"

fun py_eq_float :: "jval \<Rightarrow> pyfloat \<Rightarrow> bool" where
  "py_eq_float (JNum r) (Finite f) = (r = f)"
| "py_eq_float (JInt i) (Finite f) = (of_int i = f)"
| "py_eq_float (JBool b) (Finite f) = (of_bool b = f)"
| "py_eq_float (JSpecial PosInf) Infinity = True"
| "py_eq_float (JSpecial NegInf) NegInfinity = True"
| "py_eq_float v l = False"

text \<open>
  \<^verbatim>\<open>product.field = data.get('field', product.field)\<close> followed by the commit, for one
  column. When the key is absent the loaded value is assigned back. The unit of work
  compares the assigned value with the loaded one and leaves the column out of the UPDATE
  when they are equal.
\<close>

definition assigned_text ::
  "(jval \<Rightarrow> string option) \<Rightarrow> string option \<Rightarrow> jval option \<Rightarrow> string sent" where
  "assigned_text conv loaded a =
     (case a of
        None \<Rightarrow> Unchanged
      | Some v \<Rightarrow> if py_eq_text v loaded then Unchanged else new_text conv v)"

definition assigned_float ::
  "(jval \<Rightarrow> pyfloat option) \<Rightarrow> pyfloat \<Rightarrow> jval option \<Rightarrow> pyfloat sent" where
  "assigned_float conv loaded a =
     (case a of
        None \<Rightarrow> Unchanged
      | Some v \<Rightarrow> if py_eq_float v loaded then Unchanged else new_float conv v)"

text \<open>The value of a column after an UPDATE that was sent.\<close>

definition stored :: "'a \<Rightarrow> 'a sent \<Rightarrow> 'a" where
  "stored loaded c = (case c of Send x \<Rightarrow> x | _ \<Rightarrow> loaded)"

definition stored_nullable :: "string option \<Rightarrow> string sent \<Rightarrow> string option" where
  "stored_nullable loaded c =
     (case c of Send x \<Rightarrow> Some x | SendNull \<Rightarrow> None | _ \<Rightarrow> loaded)"

text \<open>
  An UPDATE is sent when the payload gives a value that differs from the loaded one.
\<close>

definition differs_text :: "string option \<Rightarrow> jval option \<Rightarrow> bool" where
  "differs_text loaded a = (case a of None \<Rightarrow> False | Some v \<Rightarrow> \<not> py_eq_text v loaded)"

definition differs_float :: "pyfloat \<Rightarrow> jval option \<Rightarrow> bool" where
  "differs_float loaded a = (case a of None \<Rightarrow> False | Some v \<Rightarrow> \<not> py_eq_float v loaded)"

definition update_sent :: "Products \<Rightarrow> payload \<Rightarrow> bool" where
  "update_sent p data \<longleftrightarrow>
     differs_text (Some (name p)) (data ''name'')
     \<or> differs_text (description p) (data ''description'')
     \<or> differs_float (price p) (data ''price'')
     \<or> differs_text (product_image_url p) (data ''product_image_url'')"

text \<open>The row after an UPDATE that was sent at the time \<open>now\<close>.\<close>

definition updated_row :: "database \<Rightarrow> nat \<Rightarrow> Products \<Rightarrow> payload \<Rightarrow> Products" where
  "updated_row s now p data =
     p\<lparr>name := stored (name p) (assigned_text (text_conv s) (Some (name p)) (data ''name'')),
       description := stored_nullable (description p)
          (assigned_text (text_conv s) (description p) (data ''description'')),
       price := stored (price p) (assigned_float (float_conv s) (price p) (data ''price'')),
       product_image_url := stored_nullable (product_image_url p)
          (assigned_text (text_conv s) (product_image_url p) (data ''product_image_url'')),
       updated_at := now\<rparr>"

text \<open>
  \<^verbatim>\<open>db.session.commit()\<close> after the four assignments of \<^verbatim>\<open>update_product\<close>. When no
  column differs no UPDATE is sent, and \<^verbatim>\<open>onupdate=now()\<close> applies only to an UPDATE
  that is sent. The parameters are converted before the statement is run.
\<close>

definition commit_update :: "database \<Rightarrow> nat \<Rightarrow> Products \<Rightarrow> payload \<Rightarrow> exn + database" where
  "commit_update s now p data =
     (let cn = assigned_text (text_conv s) (Some (name p)) (data ''name'');
          cd = assigned_text (text_conv s) (description p) (data ''description'');
          cp = assigned_float (float_conv s) (price p) (data ''price'');
          ci = assigned_text (text_conv s) (product_image_url p) (data ''product_image_url'')
      in if \<not> update_sent p data then Inr s
         else if cn = Unbindable \<or> cd = Unbindable \<or> cp = Unbindable \<or> ci = Unbindable
         then Inl StatementError
         else if cn = SendNull \<or> cp = SendNull then Inl IntegrityError
         else Inr (s\<lparr>products :=
                map (\<lambda>q. if product_id q = product_id p then updated_row s now p data else q)
                  (products s)\<rparr>))"

text \<open>\<^verbatim>\<open>db.session.delete(product); db.session.commit()\<close>.\<close>

definition commit_delete :: "database \<Rightarrow> Products \<Rightarrow> database" where
  "commit_delete s p = s\<lparr>products := filter (\<lambda>q. product_id q \<noteq> product_id p) (products s)\<rparr>"

section \<open>View functions\<close>

subsection \<open>Home and static files\<close>

definition home :: result where
  "home = Inr (200, Msg ''Welcome to the Products API!'')"

text \<open>\<^verbatim>\<open>send_from_directory\<close> aborts with 404 when the file does not exist.\<close>

definition serve_static :: "bool \<Rightarrow> result" where
  "serve_static file_exists = (if file_exists then Inr (200, FileBody) else Inl NotFound)"

subsection \<open>Registration\<close>

definition required_fields :: "string list" where
  "required_fields = [''username'', ''email'', ''password'']"

text \<open>The loop over \<^verbatim>\<open>required_fields\<close>: the first field that is missing or falsy.\<close>

fun first_missing :: "payload \<Rightarrow> string list \<Rightarrow> string option" where
  "first_missing data [] = None"
| "first_missing data (f # fs) =
     (case data f of
        None \<Rightarrow> Some f
      | Some v \<Rightarrow> if \<not> truthy v then Some f else first_missing data fs)"

text \<open>
  \<^verbatim>\<open>user.set_password(password)\<close>: the hash function \<open>h\<close> stands for
  \<^verbatim>\<open>generate_password_hash\<close>, which encodes its argument and so raises
  \<^verbatim>\<open>AttributeError\<close> for a value that is not a string.
\<close>

fun set_password :: "(string \<Rightarrow> string) \<Rightarrow> jval \<Rightarrow> exn + string" where
  "set_password h (JStr pw) = Inr (h pw)"
| "set_password h v = Inl AttributeError"

definition register :: "(string \<Rightarrow> string) \<Rightarrow> database \<Rightarrow> payload \<Rightarrow> result \<times> database" where
  "register h s data =
     (case first_missing data required_fields of
        Some f \<Rightarrow> (Inr (400, Msg (f @ '' is required'')), s)
      | None \<Rightarrow>
     (case data ''username'' of
        None \<Rightarrow> (Inl (Unhandled (KeyError ''username'')), s)
      | Some un \<Rightarrow>
     if \<not> bindable s un then (Inl (Unhandled StatementError), s)
     else if filter_by_username s un \<noteq> None
     then (Inr (400, Msg ''Username already exists''), s)
     else
     (case data ''email'' of
        None \<Rightarrow> (Inl (Unhandled (KeyError ''email'')), s)
      | Some em \<Rightarrow>
     if \<not> bindable s em then (Inl (Unhandled StatementError), s)
     else if filter_by_email s em \<noteq> None
     then (Inr (400, Msg ''Email already registered''), s)
     else
     (case ROLES_get (dict_get data ''role'' (JStr ''user'')) of
        Inl e \<Rightarrow> (Inl (Unhandled e), s)
      | Inr r \<Rightarrow>
     (case data ''password'' of
        None \<Rightarrow> (Inl (Unhandled (KeyError ''password'')), s)
      | Some pw \<Rightarrow>
     (case set_password h pw of
        Inl e \<Rightarrow> (Inl (Unhandled e), s)
      | Inr ph \<Rightarrow>
     (case insert_user s un em ph r of
        Inl e \<Rightarrow> (Inl (Unhandled e), s)
      | Inr s' \<Rightarrow> (Inr (201, Msg ''User created successfully''), s'))))))))"

subsection \<open>Login and refresh\<close>

text \<open>
  \<^verbatim>\<open>user.check_password(password)\<close>: \<open>chk\<close> stands for \<^verbatim>\<open>check_password_hash\<close>,
  which encodes the password and so raises \<^verbatim>\<open>AttributeError\<close> for a value that is
  not a string (\<^verbatim>\<open>None\<close> when the field is absent).
\<close>

fun check_password :: "(string \<Rightarrow> string \<Rightarrow> bool) \<Rightarrow> User \<Rightarrow> jval \<Rightarrow> exn + bool" where
  "check_password chk u (JStr pw) = Inr (chk (password_hash u) pw)"
| "check_password chk u v = Inl AttributeError"

definition login :: "(string \<Rightarrow> string \<Rightarrow> bool) \<Rightarrow> database \<Rightarrow> payload \<Rightarrow> result" where
  "login chk s data =
     (let un = dict_get data ''username'' JNull in
      if \<not> bindable s un then Inl (Unhandled StatementError)
      else case filter_by_username s un of
        None \<Rightarrow> Inr (401, Msg ''Invalid username or password'')
      | Some u \<Rightarrow>
     (case check_password chk u (dict_get data ''password'' JNull) of
        Inl e \<Rightarrow> Inl (Unhandled e)
      | Inr ok \<Rightarrow>
          if \<not> ok then Inr (401, Msg ''Invalid username or password'')
          else Inr (200, LoginBody (AccessToken (JStr (username u)))
                           (RefreshToken (JStr (username u))) u)))"

text \<open>
  \<^verbatim>\<open>refresh\<close>: \<open>fault\<close> is the text of the exception that \<^verbatim>\<open>create_access_token\<close>
  raises, if it raises one; the \<^verbatim>\<open>except\<close> branch answers with that text beside the
  message.
\<close>

definition refresh :: "string option \<Rightarrow> jval \<Rightarrow> result" where
  "refresh fault ident =
     (case fault of
        None \<Rightarrow> Inr (200, TokenBody (AccessToken ident))
      | Some e \<Rightarrow> Inr (401, MsgError ''Token refresh failed'' e))"

subsection \<open>Reading products\<close>

text \<open>
  \<^verbatim>\<open>get_products\<close>: \<open>fault\<close> is the text of the exception that the query raises, if
  it raises one; the \<^verbatim>\<open>except\<close> branch answers with that text.
\<close>

definition get_products :: "string option \<Rightarrow> database \<Rightarrow> result" where
  "get_products fault s =
     (case fault of
        None \<Rightarrow> Inr (200, ProductList (products s))
      | Some e \<Rightarrow> Inr (500, ErrorText e))"

definition get_product :: "database \<Rightarrow> nat \<Rightarrow> result" where
  "get_product s pid =
     (case get_or_404 s pid of
        None \<Rightarrow> Inl NotFound
      | Some p \<Rightarrow> Inr (200, ProductBody p))"

subsection \<open>Writing products\<close>

text \<open>
  The views below take the identity that \<^verbatim>\<open>get_jwt_identity()\<close> returns (\<open>JNull\<close> for
  \<^verbatim>\<open>None\<close>) and the reading \<open>now\<close> of the database clock.
\<close>

definition create_product :: "database \<Rightarrow> nat \<Rightarrow> jval \<Rightarrow> payload \<Rightarrow> result \<times> database" where
  "create_product s now ident data =
     (if \<not> bindable s ident then (Inl (Unhandled StatementError), s)
      else let user = filter_by_username s ident in
      case data ''name'' of
        None \<Rightarrow> (Inl (Unhandled (KeyError ''name'')), s)
      | Some n \<Rightarrow>
     (case data ''price'' of
        None \<Rightarrow> (Inl (Unhandled (KeyError ''price'')), s)
      | Some pr \<Rightarrow>
     (case user of
        None \<Rightarrow> (Inl (Unhandled AttributeError), s)
      | Some u \<Rightarrow>
     (case insert_product s now n (dict_get data ''description'' (JStr ''''))
             pr (dict_get data ''product_image_url'' (JStr '''')) (user_id u) of
        Inl e \<Rightarrow> (Inl (Unhandled e), s)
      | Inr (i, s') \<Rightarrow> (Inr (201, MsgId ''Product created'' i), s')))))"

definition update_product ::
  "database \<Rightarrow> nat \<Rightarrow> jval \<Rightarrow> nat \<Rightarrow> payload \<Rightarrow> result \<times> database" where
  "update_product s now ident pid data =
     (if \<not> bindable s ident then (Inl (Unhandled StatementError), s)
      else let user = filter_by_username s ident in
      case get_or_404 s pid of
        None \<Rightarrow> (Inl NotFound, s)
      | Some p \<Rightarrow>
     (case user of
        None \<Rightarrow> (Inl (Unhandled AttributeError), s)
      | Some u \<Rightarrow>
     if created_by p \<noteq> user_id u \<and> role u \<noteq> ''admin''
     then (Inr (403, Msg ''Not authorized to update this product''), s)
     else
     (case commit_update s now p data of
        Inl e \<Rightarrow> (Inl (Unhandled e), s)
      | Inr s' \<Rightarrow> (Inr (200, Msg ''Product updated''), s'))))"

definition delete_product :: "database \<Rightarrow> jval \<Rightarrow> nat \<Rightarrow> result \<times> database" where
  "delete_product s ident pid =
     (if \<not> bindable s ident then (Inl (Unhandled StatementError), s)
      else let user = filter_by_username s ident in
      case get_or_404 s pid of
        None \<Rightarrow> (Inl NotFound, s)
      | Some p \<Rightarrow>
     (case user of
        None \<Rightarrow> (Inl (Unhandled AttributeError), s)
      | Some u \<Rightarrow>
     if created_by p \<noteq> user_id u \<and> role u \<noteq> ''admin''
     then (Inr (403, Msg ''Not authorized to delete this product''), s)
     else (Inr (200, Msg ''Product deleted''), commit_delete s p)))"

section \<open>Routes\<close>

text \<open>
  \<^verbatim>\<open>@jwt_required(optional=...)\<close>: the identity handed to the view, or the rejection.
  With \<^verbatim>\<open>optional=True\<close> only the absence of a token is let through, with identity
  \<^verbatim>\<open>None\<close>; a token that is present is verified as usual. The status codes are the
  defaults of the extension's error handlers.
\<close>

fun jwt_required :: "bool \<Rightarrow> token \<Rightarrow> failure + jval" where
  "jwt_required optional NoToken = (if optional then Inr JNull else Inl (Rejected 401))"
| "jwt_required optional (AccessToken i) = Inr i"
| "jwt_required optional (RefreshToken i) = Inl (Rejected 422)"
| "jwt_required optional ExpiredToken = Inl (Rejected 401)"
| "jwt_required optional InvalidToken = Inl (Rejected 422)"

text \<open>\<^verbatim>\<open>@jwt_required(refresh=True)\<close>: only a valid refresh token is let through.\<close>

fun jwt_refresh_required :: "token \<Rightarrow> failure + jval" where
  "jwt_refresh_required NoToken = Inl (Rejected 401)"
| "jwt_refresh_required (AccessToken i) = Inl (Rejected 422)"
| "jwt_refresh_required (RefreshToken i) = Inr i"
| "jwt_refresh_required ExpiredToken = Inl (Rejected 401)"
| "jwt_refresh_required InvalidToken = Inl (Rejected 422)"

definition route_refresh :: "token \<Rightarrow> string option \<Rightarrow> result" where
  "route_refresh tok fault =
     (case jwt_refresh_required tok of Inl f \<Rightarrow> Inl f | Inr i \<Rightarrow> refresh fault i)"

definition route_get_products :: "token \<Rightarrow> string option \<Rightarrow> database \<Rightarrow> result" where
  "route_get_products tok fault s =
     (case jwt_required True tok of Inl f \<Rightarrow> Inl f | Inr i \<Rightarrow> get_products fault s)"

definition route_get_product :: "token \<Rightarrow> database \<Rightarrow> nat \<Rightarrow> result" where
  "route_get_product tok s pid =
     (case jwt_required True tok of Inl f \<Rightarrow> Inl f | Inr i \<Rightarrow> get_product s pid)"

definition route_create_product ::
  "token \<Rightarrow> database \<Rightarrow> nat \<Rightarrow> payload \<Rightarrow> result \<times> database" where
  "route_create_product tok s now data =
     (case jwt_required False tok of
        Inl f \<Rightarrow> (Inl f, s)
      | Inr i \<Rightarrow> create_product s now i data)"

definition route_update_product ::
  "token \<Rightarrow> database \<Rightarrow> nat \<Rightarrow> nat \<Rightarrow> payload \<Rightarrow> result \<times> database" where
  "route_update_product tok s now pid data =
     (case jwt_required False tok of
        Inl f \<Rightarrow> (Inl f, s)
      | Inr i \<Rightarrow> update_product s now i pid data)"

definition route_delete_product :: "token \<Rightarrow> database \<Rightarrow> nat \<Rightarrow> result \<times> database" where
  "route_delete_product tok s pid =
     (case jwt_required False tok of
        Inl f \<Rightarrow> (Inl f, s)
      | Inr i \<Rightarrow> delete_product s i pid)"

text \<open>
  Every request that the application routes, with what the request does not decide:
  the hash and check functions of the password library, the clock, and the exceptions
  that the two \<^verbatim>\<open>try\<close> blocks may meet.
\<close>

datatype request =
    Home
  | Static bool
  | Register payload
  | Login payload
  | Refresh token
  | GetProducts token
  | GetProduct token nat
  | CreateProduct token payload
  | UpdateProduct token nat payload
  | DeleteProduct token nat

record env =
  hash_fn :: "string \<Rightarrow> string"
  check_fn :: "string \<Rightarrow> string \<Rightarrow> bool"
  clock :: nat
  list_fault :: "string option"
  refresh_fault :: "string option"

fun serve :: "env \<Rightarrow> database \<Rightarrow> request \<Rightarrow> result \<times> database" where
  "serve e s Home = (home, s)"
| "serve e s (Static x) = (serve_static x, s)"
| "serve e s (Register data) = register (hash_fn e) s data"
| "serve e s (Login data) = (login (check_fn e) s data, s)"
| "serve e s (Refresh tok) = (route_refresh tok (refresh_fault e), s)"
| "serve e s (GetProducts tok) = (route_get_products tok (list_fault e) s, s)"
| "serve e s (GetProduct tok pid) = (route_get_product tok s pid, s)"
| "serve e s (CreateProduct tok data) = route_create_product tok s (clock e) data"
| "serve e s (UpdateProduct tok pid data) = route_update_product tok s (clock e) pid data"
| "serve e s (DeleteProduct tok pid) = route_delete_product tok s pid"

section \<open>Reachable databases\<close>

text \<open>
  The start-up block: \<^verbatim>\<open>db.create_all()\<close>, then the admin row unless a user named
  \<^verbatim>\<open>admin\<close> exists.
\<close>

definition bootstrap :: "(string \<Rightarrow> string) \<Rightarrow> database \<Rightarrow> exn + database" where
  "bootstrap h s =
     (if filter_by_username s (JStr ''admin'') = None
      then insert_user s (JStr ''admin'') (JStr ''admin@example.com'') (h ''admin123'')
             (ROLES ''admin'')
      else Inr s)"

text \<open>
  The databases that a sequence of requests produces from the bootstrapped empty
  database, whatever the conversions of the engine are.
\<close>

inductive reachable :: "database \<Rightarrow> bool" where
  start: "bootstrap h (empty_db tc fc) = Inr s \<Longrightarrow> reachable s"
| step: "reachable s \<Longrightarrow> reachable (snd (serve e s rq))"



section \<open>Example data\<close>

text \<open>
  The example databases hold strings and floats and are run on requests with strings and
  floats only, where the conversions of the engine are the fixed ones of \<open>bind_text\<close>
  and \<open>bind_float\<close>; the rest of the engine's conversions is left open in them.
\<close>

definition open_text :: "jval \<Rightarrow> string option" where
  "open_text = undefined"

definition open_float :: "jval \<Rightarrow> pyfloat option" where
  "open_float = undefined"

definition alice :: User where
  "alice = \<lparr>user_id = 2, username = ''alice'', email = ''alice@x.com'',
            password_hash = ''h1'', role = ''user''\<rparr>"

definition bob :: User where
  "bob = \<lparr>user_id = 3, username = ''bob'', email = ''bob@x.com'',
          password_hash = ''h2'', role = ''user''\<rparr>"

definition root :: User where
  "root = \<lparr>user_id = 1, username = ''admin'', email = ''admin@example.com'',
           password_hash = ''h0'', role = ''admin''\<rparr>"

definition widget :: Products where
  "widget = \<lparr>product_id = 1, name = ''Widget'', description = Some '''',
             price = Finite (999 / 100), product_image_url = Some '''', created_by = 2,
             created_at = 5, updated_at = 5\<rparr>"

definition db1 :: database where
  "db1 = \<lparr>users = [root, alice, bob], products = [widget],
          text_conv = open_text, float_conv = open_float\<rparr>"

text \<open>An update of the widget's price alone at time 100, and the database after it.\<close>

definition no_fields :: payload where
  "no_fields = Map.empty"

definition price_request :: payload where
  "price_request = [''price'' \<mapsto> JNum 12]"

definition widget_repriced :: Products where
  "widget_repriced = \<lparr>product_id = 1, name = ''Widget'', description = Some '''',
             price = Finite 12, product_image_url = Some '''', created_by = 2,
             created_at = 5, updated_at = 100\<rparr>"

definition db1_repriced :: database where
  "db1_repriced = \<lparr>users = [root, alice, bob], products = [widget_repriced],
          text_conv = open_text, float_conv = open_float\<rparr>"

text \<open>
  The bootstrapped database for the hash function \<open>salted\<close>, and the database after its
  admin has created a product with the price \<open>-1\<close> at time 7.
\<close>

definition salted :: "string \<Rightarrow> string" where
  "salted pw = ''#'' @ pw"

definition db0 :: database where
  "db0 = \<lparr>users = [\<lparr>user_id = 1, username = ''admin'', email = ''admin@example.com'',
                      password_hash = ''#admin123'', role = ''admin''\<rparr>],
           products = [], text_conv = open_text, float_conv = open_float\<rparr>"

definition gadget :: Products where
  "gadget = \<lparr>product_id = 1, name = ''Gadget'', description = Some '''',
             price = Finite (- 1), product_image_url = Some '''', created_by = 1,
             created_at = 7, updated_at = 7\<rparr>"

definition gadget_request :: payload where
  "gadget_request = [''name'' \<mapsto> JStr ''Gadget'', ''price'' \<mapsto> JNum (- 1)]"

definition db_gadget :: database where
  "db_gadget = db0\<lparr>products := [gadget]\<rparr>"

text \<open>Registration requests: without a role, with the role admin, with an unknown role.\<close>

definition carol_request :: payload where
  "carol_request = [''username'' \<mapsto> JStr ''carol'', ''email'' \<mapsto> JStr ''carol@x.com'',
                    ''password'' \<mapsto> JStr ''pw123'']"

definition carol_admin_request :: payload where
  "carol_admin_request = [''username'' \<mapsto> JStr ''carol'', ''email'' \<mapsto> JStr ''carol@x.com'',
                    ''password'' \<mapsto> JStr ''pw123'', ''role'' \<mapsto> JStr ''admin'']"



definition carol_row :: "string \<Rightarrow> User" where
  "carol_row r = \<lparr>user_id = 4, username = ''carol'', email = ''carol@x.com'',
                  password_hash = ''#pw123'', role = r\<rparr>"


definition plain_env :: env where
  "plain_env = \<lparr>hash_fn = salted, check_fn = (\<lambda>hash pw. hash = salted pw), clock = 7,
                list_fault = None, refresh_fault = None\<rparr>"

section \<open>Authorization of update and delete\<close>


lemma bind_text_string: "bindable s (JStr t)"
  by (simp add: bindable_def)




lemma db1_alice: "filter_by_username db1 (JStr ''alice'') = Some alice"
  by (simp add: filter_by_username_def db1_def root_def alice_def bob_def)

lemma db1_root: "filter_by_username db1 (JStr ''admin'') = Some root"
  by (simp add: filter_by_username_def db1_def root_def alice_def bob_def)

lemma db1_widget: "get_or_404 db1 1 = Some widget"
  by (simp add: get_or_404_def db1_def widget_def)



section \<open>Reading after a delete\<close>

lemma get_or_404_id: "get_or_404 s pid = Some P \<Longrightarrow> product_id P = pid"
  by (auto simp: get_or_404_def find_Some_iff)

lemma get_or_404_commit_delete:
  "get_or_404 s pid = Some P \<Longrightarrow> get_or_404 (commit_delete s P) pid = None"
  by (frule get_or_404_id) (simp add: get_or_404_def commit_delete_def find_None_iff)

lemma delete_product_ok:
  assumes "fst (delete_product s ident pid) = Inr (200, b)"
  shows "\<exists>P. get_or_404 s pid = Some P \<and> snd (delete_product s ident pid) = commit_delete s P"
  using assms
  by (auto simp: delete_product_def Let_def split: option.splits if_splits)

lemma commit_delete_widget: "commit_delete db1 widget = db1\<lparr>products := []\<rparr>"
  by (simp add: commit_delete_def db1_def)

lemma delete_widget_by_root:
  "route_delete_product (AccessToken (JStr ''admin'')) db1 1
     = (Inr (200, Msg ''Product deleted''), db1\<lparr>products := []\<rparr>)"
  by (simp add: route_delete_product_def delete_product_def db1_root db1_widget
      commit_delete_widget root_def bind_text_string del: One_nat_def)

text \<open>
  Claim C8. When a delete request for a product id is answered with 200, the view
  \<^verbatim>\<open>get_product\<close> on the database after it aborts with NotFound for that id, and the
  route answers 404 to a request without a token and to one with a valid access token.
\<close>

theorem get_after_delete_not_found:
  assumes "fst (route_delete_product tok s pid) = Inr (200, b)"
  shows "get_product (snd (route_delete_product tok s pid)) pid = Inl NotFound
       \<and> status_code (route_get_product NoToken (snd (route_delete_product tok s pid)) pid) = 404
       \<and> status_code (route_get_product (AccessToken i)
            (snd (route_delete_product tok s pid)) pid) = 404"
proof -
  from assms obtain ident where t: "jwt_required False tok = Inr ident"
    by (auto simp: route_delete_product_def split: sum.splits)
  with assms have "fst (delete_product s ident pid) = Inr (200, b)"
    by (simp add: route_delete_product_def)
  then obtain P where P: "get_or_404 s pid = Some P"
      and s': "snd (delete_product s ident pid) = commit_delete s P"
    using delete_product_ok by blast
  from t s' have "snd (route_delete_product tok s pid) = commit_delete s P"
    by (simp add: route_delete_product_def)
  moreover have "get_or_404 (commit_delete s P) pid = None"
    using P by (rule get_or_404_commit_delete)
  ultimately show ?thesis
    by (simp add: get_product_def route_get_product_def)
qed

theorem get_after_delete_not_found_witness:
  "fst (route_delete_product (AccessToken (JStr ''admin'')) db1 1)
     = Inr (200, Msg ''Product deleted'')
   \<and> get_product (db1\<lparr>products := []\<rparr>) 1 = Inl NotFound"
proof -
  have h: "fst (route_delete_product (AccessToken (JStr ''admin'')) db1 1)
     = Inr (200, Msg ''Product deleted'')"
    by (simp add: delete_widget_by_root del: One_nat_def)
  from get_after_delete_not_found [OF h] h show ?thesis
    by (simp add: delete_widget_by_root del: One_nat_def)
qed

section \<open>Creating a product without a required field\<close>

text \<open>
  Claim C4. An authenticated creation request whose body has a price and no name ends in
  the uncaught \<^verbatim>\<open>KeyError\<close> of \<^verbatim>\<open>data['name']\<close>, and one with a name and no price in
  that of \<^verbatim>\<open>data['price']\<close>. Both are answered with status 500, not with a validation
  error; the database stays as it was.
\<close>

theorem create_product_missing_field:
  "route_create_product (AccessToken (JStr ''alice'')) db1 100
       [''price'' \<mapsto> JNum (999 / 100)]
     = (Inl (Unhandled (KeyError ''name'')), db1)
   \<and> route_create_product (AccessToken (JStr ''alice'')) db1 100
       [''name'' \<mapsto> JStr ''Widget'']
     = (Inl (Unhandled (KeyError ''price'')), db1)
   \<and> status_code (Inl (Unhandled (KeyError ''name''))) = 500"
  by (simp add: route_create_product_def create_product_def bind_text_string)

section \<open>Optional authentication on the reading routes\<close>

text \<open>
  Claim C6, as stated, fails: a request to the product list with an expired token is
  rejected with 401, and a request for an existing product with a token that cannot be
  verified is rejected with 422.
\<close>

theorem optional_auth_invalid_token_rejected:
  "route_get_products ExpiredToken None db1 = Inl (Rejected 401)
   \<and> route_get_product InvalidToken db1 1 = Inl (Rejected 422)
   \<and> get_or_404 db1 1 = Some widget
   \<and> status_code (route_get_products ExpiredToken None db1) \<noteq> 200
   \<and> status_code (route_get_product InvalidToken db1 1) \<noteq> 200"
  by (simp add: route_get_products_def route_get_product_def db1_widget del: One_nat_def)

text \<open>
  Claim C6, amended. A request to the product list (when the query raises nothing) and a
  request for an existing product are answered with 200 when the request has no token or
  a valid access token. A request with an expired or unverifiable token, or with a refresh
  token, is rejected by the decorator with 401 or 422 on both routes.
\<close>

theorem optional_auth_reads:
  "(tok = NoToken \<or> tok = AccessToken i \<longrightarrow>
      route_get_products tok None s = Inr (200, ProductList (products s))
      \<and> (get_or_404 s pid = Some P \<longrightarrow> route_get_product tok s pid = Inr (200, ProductBody P)))
   \<and> (tok = ExpiredToken \<or> tok = InvalidToken \<or> tok = RefreshToken i \<longrightarrow>
      status_code (route_get_products tok fault s) \<in> {401, 422}
      \<and> status_code (route_get_product tok s pid) \<in> {401, 422})"
  by (auto simp: route_get_products_def route_get_product_def get_products_def get_product_def)

theorem optional_auth_reads_witness:
  "get_or_404 db1 1 = Some widget
   \<and> route_get_products NoToken None db1 = Inr (200, ProductList (products db1))
   \<and> route_get_product NoToken db1 1 = Inr (200, ProductBody widget)
   \<and> status_code (route_get_product ExpiredToken db1 1) \<in> {401, 422}"
  using optional_auth_reads [where tok = NoToken and s = db1 and pid = 1 and P = widget]
    optional_auth_reads [where tok = ExpiredToken and s = db1 and pid = 1] db1_widget
  by blast

section \<open>Registration: the role of the new user\<close>

lemma first_missing_None:
  "first_missing data fs = None \<Longrightarrow> f \<in> set fs \<Longrightarrow> \<exists>v. data f = Some v \<and> truthy v"
  by (induction fs) (auto split: option.splits if_splits)


lemma truthy_not_null: "truthy v \<Longrightarrow> v \<noteq> JNull"
  by (cases v) auto

lemma filter_by_username_None:
  "bind_text (text_conv s) x = Some t \<Longrightarrow>
     filter_by_username s x = None \<longleftrightarrow> \<not> list_ex (\<lambda>u. username u = t) (users s)"
  by (auto simp: filter_by_username_def find_None_iff list_ex_iff)

lemma filter_by_email_None:
  "bind_text (text_conv s) x = Some t \<Longrightarrow>
     filter_by_email s x = None \<longleftrightarrow> \<not> list_ex (\<lambda>u. email u = t) (users s)"
  by (auto simp: filter_by_email_def find_None_iff list_ex_iff)

lemma bound_bindable: "bind_text (text_conv s) x = Some t \<Longrightarrow> bindable s x"
  by (simp add: bindable_def)

lemma new_text_bound:
  "bind_text conv x = Some t \<Longrightarrow> x \<noteq> JNull \<Longrightarrow> new_text conv x = Send t"
  by (simp add: new_text_def)

lemma insert_user_fresh:
  assumes "bind_text (text_conv s) un = Some ut" and "bind_text (text_conv s) em = Some et"
    and "un \<noteq> JNull" and "em \<noteq> JNull"
    and "\<not> list_ex (\<lambda>u. username u = ut) (users s)"
    and "\<not> list_ex (\<lambda>u. email u = et) (users s)"
  shows "insert_user s un em ph r =
      Inr (s\<lparr>users := users s @
        [\<lparr>user_id = next_id (map user_id (users s)), username = ut, email = et,
          password_hash = ph, role = (case r of None \<Rightarrow> ''user'' | Some x \<Rightarrow> x)\<rparr>]\<rparr>)"
  using assms by (simp add: insert_user_def new_text_bound)

text \<open>The part of the registration that precedes the role: both lookups find nothing.\<close>

lemma register_past_checks:
  assumes req: "first_missing data required_fields = None"
    and un: "data ''username'' = Some un" and em: "data ''email'' = Some em"
    and bu: "bind_text (text_conv s) un = Some ut" and be: "bind_text (text_conv s) em = Some et"
    and fu: "\<not> list_ex (\<lambda>u. username u = ut) (users s)"
    and fe: "\<not> list_ex (\<lambda>u. email u = et) (users s)"
  shows "register h s data =
     (case ROLES_get (dict_get data ''role'' (JStr ''user'')) of
        Inl e \<Rightarrow> (Inl (Unhandled e), s)
      | Inr r \<Rightarrow>
     (case data ''password'' of
        None \<Rightarrow> (Inl (Unhandled (KeyError ''password'')), s)
      | Some pw \<Rightarrow>
     (case set_password h pw of
        Inl e \<Rightarrow> (Inl (Unhandled e), s)
      | Inr ph \<Rightarrow>
         (Inr (201, Msg ''User created successfully''),
          s\<lparr>users := users s @
            [\<lparr>user_id = next_id (map user_id (users s)), username = ut, email = et,
              password_hash = ph, role = (case r of None \<Rightarrow> ''user'' | Some x \<Rightarrow> x)\<rparr>]\<rparr>))))"
proof -
  have "truthy un" "truthy em"
    using first_missing_None [OF req, of "''username''"]
      first_missing_None [OF req, of "''email''"] un em
    by (auto simp: required_fields_def)
  then have nn: "un \<noteq> JNull" "em \<noteq> JNull"
    by (auto dest: truthy_not_null)
  note ins = insert_user_fresh [OF bu be nn fu fe]
  show ?thesis
    using req un em fu fe
    by (simp add: register_def ins bound_bindable [OF bu] bound_bindable [OF be]
        filter_by_username_None [OF bu] filter_by_email_None [OF be]
        split: sum.splits option.splits)
qed

lemma insert_user_row:
  assumes "insert_user s un em ph r = Inr s'"
  shows "\<exists>u. users s' = users s @ [u]
           \<and> role u = (case r of None \<Rightarrow> ''user'' | Some x \<Rightarrow> x)"
  using assms
  by (auto simp: insert_user_def split: sent.splits if_splits)

lemma register_201:
  assumes "fst (register h s data) = Inr (201, b)"
  shows "\<exists>un em ph r. ROLES_get (dict_get data ''role'' (JStr ''user'')) = Inr r
        \<and> insert_user s un em ph r = Inr (snd (register h s data))"
  using assms
  by (auto simp: register_def split: option.splits sum.splits if_splits)



lemma register_created_row:
  assumes "fst (register h s data) = Inr (201, b)"
  shows "\<exists>u r. users (snd (register h s data)) = users s @ [u]
           \<and> ROLES_get (dict_get data ''role'' (JStr ''user'')) = Inr r
           \<and> role u = (case r of None \<Rightarrow> ''user'' | Some x \<Rightarrow> x)"
proof -
  from register_201 [OF assms] obtain un em ph r
    where r: "ROLES_get (dict_get data ''role'' (JStr ''user'')) = Inr r"
      and i: "insert_user s un em ph r = Inr (snd (register h s data))"
    by blast
  from insert_user_row [OF i] r show ?thesis by blast
qed

text \<open>
  Claim C2. A registration request whose three required fields are present and truthy,
  whose password is a string and whose username and email, as the columns take them, are
  not yet stored is answered with 201 and adds one user: with the role user when the
  request has no role field, with the role admin when it has the role admin. And whenever
  a registration is answered with 201, the user it has added has the role user when the
  request has no role field and the role admin when it has the role admin.
\<close>

theorem register_role_default_and_admin:
  "(first_missing data required_fields = None
      \<and> data ''username'' = Some un \<and> data ''email'' = Some em
      \<and> bind_text (text_conv s) un = Some ut \<and> bind_text (text_conv s) em = Some et
      \<and> \<not> list_ex (\<lambda>u. username u = ut) (users s)
      \<and> \<not> list_ex (\<lambda>u. email u = et) (users s)
      \<and> data ''password'' = Some (JStr pw) \<longrightarrow>
        (data ''role'' = None \<longrightarrow>
            register h s data =
              (Inr (201, Msg ''User created successfully''),
               s\<lparr>users := users s @
                 [\<lparr>user_id = next_id (map user_id (users s)), username = ut, email = et,
                   password_hash = h pw, role = ''user''\<rparr>]\<rparr>))
        \<and> (data ''role'' = Some (JStr ''admin'') \<longrightarrow>
            register h s data =
              (Inr (201, Msg ''User created successfully''),
               s\<lparr>users := users s @
                 [\<lparr>user_id = next_id (map user_id (users s)), username = ut, email = et,
                   password_hash = h pw, role = ''admin''\<rparr>]\<rparr>)))
   \<and> (fst (register h s data) = Inr (201, b) \<longrightarrow>
        (\<exists>u. users (snd (register h s data)) = users s @ [u]
           \<and> (data ''role'' = None \<longrightarrow> role u = ''user'')
           \<and> (data ''role'' = Some (JStr ''admin'') \<longrightarrow> role u = ''admin'')))"
proof -
  have a: "first_missing data required_fields = None
      \<and> data ''username'' = Some un \<and> data ''email'' = Some em
      \<and> bind_text (text_conv s) un = Some ut \<and> bind_text (text_conv s) em = Some et
      \<and> \<not> list_ex (\<lambda>u. username u = ut) (users s)
      \<and> \<not> list_ex (\<lambda>u. email u = et) (users s)
      \<and> data ''password'' = Some (JStr pw) \<longrightarrow>
        (data ''role'' = None \<longrightarrow>
            register h s data =
              (Inr (201, Msg ''User created successfully''),
               s\<lparr>users := users s @
                 [\<lparr>user_id = next_id (map user_id (users s)), username = ut, email = et,
                   password_hash = h pw, role = ''user''\<rparr>]\<rparr>))
        \<and> (data ''role'' = Some (JStr ''admin'') \<longrightarrow>
            register h s data =
              (Inr (201, Msg ''User created successfully''),
               s\<lparr>users := users s @
                 [\<lparr>user_id = next_id (map user_id (users s)), username = ut, email = et,
                   password_hash = h pw, role = ''admin''\<rparr>]\<rparr>))"
  proof (intro impI, elim conjE)
    assume h: "first_missing data required_fields = None"
      "data ''username'' = Some un" "data ''email'' = Some em"
      "bind_text (text_conv s) un = Some ut" "bind_text (text_conv s) em = Some et"
      "\<not> list_ex (\<lambda>u. username u = ut) (users s)"
      "\<not> list_ex (\<lambda>u. email u = et) (users s)"
      and p: "data ''password'' = Some (JStr pw)"
    show "(data ''role'' = None \<longrightarrow>
            register h s data =
              (Inr (201, Msg ''User created successfully''),
               s\<lparr>users := users s @
                 [\<lparr>user_id = next_id (map user_id (users s)), username = ut, email = et,
                   password_hash = h pw, role = ''user''\<rparr>]\<rparr>))
        \<and> (data ''role'' = Some (JStr ''admin'') \<longrightarrow>
            register h s data =
              (Inr (201, Msg ''User created successfully''),
               s\<lparr>users := users s @
                 [\<lparr>user_id = next_id (map user_id (users s)), username = ut, email = et,
                   password_hash = h pw, role = ''admin''\<rparr>]\<rparr>))"
      using register_past_checks [OF h, of h] p
      by (auto simp: dict_get_def ROLES_def)
  qed
  have b: "fst (register h s data) = Inr (201, b) \<longrightarrow>
        (\<exists>u. users (snd (register h s data)) = users s @ [u]
           \<and> (data ''role'' = None \<longrightarrow> role u = ''user'')
           \<and> (data ''role'' = Some (JStr ''admin'') \<longrightarrow> role u = ''admin''))"
    using register_created_row [of h s data b]
    by (auto simp: dict_get_def ROLES_def)
  from a b show ?thesis by blast
qed


lemma carol_fresh:
  "\<not> list_ex (\<lambda>u. username u = ''carol'') (users db1)"
  "\<not> list_ex (\<lambda>u. email u = ''carol@x.com'') (users db1)"
  by (simp_all add: db1_def root_def alice_def bob_def)

lemma db1_next_user: "next_id (map user_id (users db1)) = 4"
  by (simp add: db1_def root_def alice_def bob_def next_id_def)

theorem register_role_default_and_admin_witness:
  "first_missing carol_admin_request required_fields = None
   \<and> \<not> list_ex (\<lambda>u. username u = ''carol'') (users db1)
   \<and> \<not> list_ex (\<lambda>u. email u = ''carol@x.com'') (users db1)
   \<and> register salted db1 carol_admin_request =
       (Inr (201, Msg ''User created successfully''),
        db1\<lparr>users := users db1 @ [carol_row ''admin'']\<rparr>)"
proof -
  have q: "first_missing carol_admin_request required_fields = None"
    by (simp add: carol_admin_request_def required_fields_def)
  have u: "carol_admin_request ''username'' = Some (JStr ''carol'')"
    and e: "carol_admin_request ''email'' = Some (JStr ''carol@x.com'')"
    and p: "carol_admin_request ''password'' = Some (JStr ''pw123'')"
    and r: "carol_admin_request ''role'' = Some (JStr ''admin'')"
    by (simp_all add: carol_admin_request_def)
  from register_role_default_and_admin [of carol_admin_request "JStr ''carol''"
      "JStr ''carol@x.com''" db1 "''carol''" "''carol@x.com''" "''pw123''" salted]
    q u e p r carol_fresh
  have "register salted db1 carol_admin_request =
       (Inr (201, Msg ''User created successfully''),
        db1\<lparr>users := users db1 @ [carol_row ''admin'']\<rparr>)"
    by (simp add: db1_next_user carol_row_def salted_def)
  with q carol_fresh show ?thesis by blast
qed







section \<open>Uniqueness of usernames and emails\<close>















lemma bootstrap_db0: "bootstrap salted (empty_db open_text open_float) = Inr db0"
  by (simp add: bootstrap_def empty_db_def filter_by_username_def insert_user_def ROLES_def
      next_id_def salted_def db0_def new_text_def)

lemma reachable_db0: "reachable db0"
  using bootstrap_db0 by (rule reachable.start)


section \<open>What an update changes\<close>

lemma find_replaced:
  assumes "find (\<lambda>p. product_id p = pid) xs = Some P" and "product_id N = pid"
  shows "find (\<lambda>p. product_id p = pid) (map (\<lambda>q. if product_id q = pid then N else q) xs) = Some N"
  using assms by (induction xs) (auto split: if_splits)

lemma commit_update_get:
  assumes "commit_update s now P data = Inr s'" and "get_or_404 s pid = Some P"
  shows "get_or_404 s' pid = Some (if update_sent P data then updated_row s now P data else P)"
proof (cases "update_sent P data")
  case False
  with assms show ?thesis by (simp add: commit_update_def Let_def)
next
  case True
  have i: "product_id P = pid" using assms(2) by (rule get_or_404_id)
  then have "product_id (updated_row s now P data) = pid"
    by (simp add: updated_row_def)
  from find_replaced [OF assms(2) [unfolded get_or_404_def] this] True assms(1) i
  show ?thesis
    by (auto simp: commit_update_def Let_def get_or_404_def split: if_splits)
qed

lemma update_product_ok:
  assumes "route_update_product tok s now pid data = (Inr (200, b), s')"
    and "get_or_404 s pid = Some P"
  shows "commit_update s now P data = Inr s'"
  using assms
  by (auto simp: route_update_product_def update_product_def Let_def
      split: sum.splits option.splits if_splits)

lemma update_product_get:
  assumes "route_update_product tok s now pid data = (Inr (200, b), s')"
    and "get_or_404 s pid = Some P"
  shows "get_or_404 s' pid =
    Some (if update_sent P data then updated_row s now P data else P)"
  using update_product_ok [OF assms] assms(2) by (rule commit_update_get)

lemma omitted_kept:
  "stored l (assigned_text conv x None) = l"
  "stored_nullable n (assigned_text conv n None) = n"
  "stored f (assigned_float fconv f None) = f"
  by (simp_all add: stored_def stored_nullable_def assigned_text_def assigned_float_def)

text \<open>
  Claim C5, amended. After an update that is answered with 200 the product with the
  requested id has: for every field that the payload omits the value it had; the creator,
  id and creation time it had; and as time of the last update the time of the request
  when the payload gives some field a value that differs from the stored one, the old
  time otherwise.
\<close>

theorem update_changes_only_given_fields:
  assumes "route_update_product tok s now pid data = (Inr (200, b), s')"
    and "get_or_404 s pid = Some P"
  shows "\<exists>P'. get_or_404 s' pid = Some P'
     \<and> (data ''name'' = None \<longrightarrow> name P' = name P)
     \<and> (data ''description'' = None \<longrightarrow> description P' = description P)
     \<and> (data ''price'' = None \<longrightarrow> price P' = price P)
     \<and> (data ''product_image_url'' = None \<longrightarrow> product_image_url P' = product_image_url P)
     \<and> created_by P' = created_by P \<and> product_id P' = product_id P
     \<and> created_at P' = created_at P
     \<and> updated_at P' = (if update_sent P data then now else updated_at P)"
proof (cases "update_sent P data")
  case True
  with update_product_get [OF assms]
  have "get_or_404 s' pid = Some (updated_row s now P data)" by simp
  with True show ?thesis
    by (simp add: updated_row_def omitted_kept)
next
  case False
  with update_product_get [OF assms] have "get_or_404 s' pid = Some P" by simp
  with False show ?thesis by simp
qed

lemma db1_ident: "bindable db1 (JStr t)"
  by (simp add: bindable_def)

lemma alice_empty_update:
  "route_update_product (AccessToken (JStr ''alice'')) db1 100 1 no_fields
     = (Inr (200, Msg ''Product updated''), db1)"
  by (simp add: route_update_product_def update_product_def db1_alice db1_widget alice_def
      widget_def commit_update_def update_sent_def differs_text_def differs_float_def
      no_fields_def db1_ident del: One_nat_def)

text \<open>
  Claim C5, as stated, fails: the owner's update of the widget with an empty payload at
  time 100 is answered with 200, and the widget keeps 5 as the time of its last update.
\<close>

theorem update_without_change_keeps_updated_at:
  "get_or_404 db1 1 = Some widget \<and> updated_at widget = 5
   \<and> route_update_product (AccessToken (JStr ''alice'')) db1 100 1 no_fields
       = (Inr (200, Msg ''Product updated''), db1)"
  using db1_widget alice_empty_update by (simp add: widget_def del: One_nat_def)

lemma widget_price_differs: "update_sent widget price_request"
  by (simp add: update_sent_def differs_float_def price_request_def widget_def)

lemma alice_price_update:
  "route_update_product (AccessToken (JStr ''alice'')) db1 100 1 price_request
     = (Inr (200, Msg ''Product updated''), db1_repriced)"
proof -
  have "commit_update db1 100 widget price_request = Inr db1_repriced"
    using widget_price_differs
    by (simp add: commit_update_def Let_def updated_row_def assigned_text_def
        assigned_float_def new_float_def price_request_def stored_def stored_nullable_def
        db1_def db1_repriced_def widget_def widget_repriced_def)
  then show ?thesis
    by (simp add: route_update_product_def update_product_def db1_alice db1_widget alice_def
        db1_ident del: One_nat_def)
       (simp add: widget_def)
qed

theorem update_changes_only_given_fields_witness:
  "route_update_product (AccessToken (JStr ''alice'')) db1 100 1 price_request
       = (Inr (200, Msg ''Product updated''), db1_repriced)
   \<and> get_or_404 db1 1 = Some widget
   \<and> (\<exists>P'. get_or_404 db1_repriced 1 = Some P' \<and> name P' = name widget
          \<and> description P' = description widget
          \<and> created_by P' = created_by widget \<and> updated_at P' = 100)"
proof -
  have n: "price_request ''name'' = None" "price_request ''description'' = None"
    by (simp_all add: price_request_def)
  from update_changes_only_given_fields [OF alice_price_update db1_widget] n
    alice_price_update db1_widget widget_price_differs
  show ?thesis by auto
qed

section \<open>The price that is stored\<close>

lemma less_next_id: "x \<in> set ids \<Longrightarrow> x < next_id ids"
  by (induction ids) (auto simp: next_id_def)

lemma find_appended:
  assumes "\<forall>p\<in>set xs. product_id p \<noteq> i" and "product_id N = i"
  shows "find (\<lambda>p. product_id p = i) (xs @ [N]) = Some N"
  using assms by (induction xs) auto

lemma new_float_Send: "new_float conv v = Send f \<Longrightarrow> bind_float conv v = Some f"
  by (auto simp: new_float_def split: if_splits option.splits)

lemma insert_product_get:
  assumes "insert_product s now n d pr img ow = Inr (i, s')"
  shows "\<exists>P. get_or_404 s' i = Some P \<and> bind_float (float_conv s) pr = Some (price P)"
proof -
  have fresh: "\<forall>p\<in>set (products s). product_id p \<noteq> next_id (map product_id (products s))"
    using less_next_id [of _ "map product_id (products s)"] by fastforce
  from assms obtain t f where f: "new_float (float_conv s) pr = Send f"
    and i: "i = next_id (map product_id (products s))"
    and s': "s' = s\<lparr>products := products s @
                   [\<lparr>product_id = i, name = t,
                     description = nullable (new_text (text_conv s) d), price = f,
                     product_image_url = nullable (new_text (text_conv s) img),
                     created_by = ow, created_at = now, updated_at = now\<rparr>]\<rparr>"
    by (auto simp: insert_product_def Let_def split: if_splits sent.splits)
  from fresh i s' have "get_or_404 s' i = Some \<lparr>product_id = i, name = t,
                     description = nullable (new_text (text_conv s) d), price = f,
                     product_image_url = nullable (new_text (text_conv s) img),
                     created_by = ow, created_at = now, updated_at = now\<rparr>"
    by (simp add: get_or_404_def find_appended)
  with new_float_Send [OF f] show ?thesis by simp
qed

lemma create_product_ok:
  assumes "route_create_product tok s now data = (Inr (201, MsgId m i), s')"
  shows "\<exists>n pr d img ow. data ''price'' = Some pr
           \<and> insert_product s now n d pr img ow = Inr (i, s')"
  using assms
  by (auto simp: route_create_product_def create_product_def Let_def
      split: sum.splits option.splits prod.splits if_splits)

lemma stored_price:
  "data ''price'' = Some v \<Longrightarrow>
     stored l (assigned_float conv l (data ''price'')) = l \<and> py_eq_float v l
     \<or> bind_float conv v = Some (stored l (assigned_float conv l (data ''price'')))
     \<or> assigned_float conv l (data ''price'') = SendNull
     \<or> assigned_float conv l (data ''price'') = Unbindable"
  by (auto simp: assigned_float_def stored_def new_float_def split: option.splits)

lemma commit_update_price:
  assumes "commit_update s now P data = Inr s'" and "update_sent P data"
  shows "assigned_float (float_conv s) (price P) (data ''price'') \<noteq> SendNull
       \<and> assigned_float (float_conv s) (price P) (data ''price'') \<noteq> Unbindable"
  using assms by (auto simp: commit_update_def Let_def split: if_splits)

text \<open>
  Claim C7, amended. Creation and update store the value that the Float column converts
  the caller's price to, with no check of its sign. After a creation answered with 201
  the new product has the conversion of the payload's price. After an update answered
  with 200 the product has the price it had when the payload omits the price or gives a
  value equal to it, and the conversion of the given price otherwise. A float converts
  to itself, whatever its sign.
\<close>

theorem price_stored_as_converted:
  "(route_create_product tok s now data = (Inr (201, MsgId m i), s') \<longrightarrow>
      (\<exists>P pr. get_or_404 s' i = Some P \<and> data ''price'' = Some pr
         \<and> bind_float (float_conv s) pr = Some (price P)))
   \<and> (route_update_product tok s now pid data = (Inr (200, b), s')
        \<and> get_or_404 s pid = Some P \<longrightarrow>
      (\<exists>P'. get_or_404 s' pid = Some P'
         \<and> (data ''price'' = None \<longrightarrow> price P' = price P)
         \<and> (\<forall>v. data ''price'' = Some v \<longrightarrow>
               price P' = price P \<and> py_eq_float v (price P)
               \<or> bind_float (float_conv s) v = Some (price P'))))
   \<and> bind_float (float_conv s) (JNum r) = Some (Finite r)"
proof -
  have c: "route_create_product tok s now data = (Inr (201, MsgId m i), s') \<longrightarrow>
      (\<exists>P pr. get_or_404 s' i = Some P \<and> data ''price'' = Some pr
         \<and> bind_float (float_conv s) pr = Some (price P))"
  proof
    assume "route_create_product tok s now data = (Inr (201, MsgId m i), s')"
    then obtain n pr d img ow where "data ''price'' = Some pr"
        and "insert_product s now n d pr img ow = Inr (i, s')"
      using create_product_ok by blast
    then show "\<exists>P pr. get_or_404 s' i = Some P \<and> data ''price'' = Some pr
         \<and> bind_float (float_conv s) pr = Some (price P)"
      using insert_product_get by fastforce
  qed
  have u: "route_update_product tok s now pid data = (Inr (200, b), s')
        \<and> get_or_404 s pid = Some P \<longrightarrow>
      (\<exists>P'. get_or_404 s' pid = Some P'
         \<and> (data ''price'' = None \<longrightarrow> price P' = price P)
         \<and> (\<forall>v. data ''price'' = Some v \<longrightarrow>
               price P' = price P \<and> py_eq_float v (price P)
               \<or> bind_float (float_conv s) v = Some (price P')))"
  proof
    assume a: "route_update_product tok s now pid data = (Inr (200, b), s')
        \<and> get_or_404 s pid = Some P"
    then have g: "get_or_404 s' pid =
        Some (if update_sent P data then updated_row s now P data else P)"
      and k: "commit_update s now P data = Inr s'"
      using update_product_get update_product_ok by blast+
    show "\<exists>P'. get_or_404 s' pid = Some P'
         \<and> (data ''price'' = None \<longrightarrow> price P' = price P)
         \<and> (\<forall>v. data ''price'' = Some v \<longrightarrow>
               price P' = price P \<and> py_eq_float v (price P)
               \<or> bind_float (float_conv s) v = Some (price P'))"
    proof (cases "update_sent P data")
      case True
      from commit_update_price [OF k True] g True
        stored_price [of data _ "price P" "float_conv s"]
      show ?thesis
        by (auto simp: updated_row_def omitted_kept)
    next
      case False
      then have "\<forall>v. data ''price'' = Some v \<longrightarrow> py_eq_float v (price P)"
        by (auto simp: update_sent_def differs_float_def)
      with g False show ?thesis by simp
    qed
  qed
  have n: "bind_float (float_conv s) (JNum r) = Some (Finite r)" by simp
  from c u n show ?thesis by blast
qed

lemma admin_creates_gadget:
  "route_create_product (AccessToken (JStr ''admin'')) db0 7 gadget_request
     = (Inr (201, MsgId ''Product created'' 1), db_gadget)"
  by (simp add: route_create_product_def create_product_def filter_by_username_def db0_def
      gadget_request_def insert_product_def dict_get_def next_id_def db_gadget_def gadget_def
      bindable_def new_text_def new_float_def nullable_def)

lemma reachable_db_gadget: "reachable db_gadget"
  using reachable.step [OF reachable_db0, of plain_env
      "CreateProduct (AccessToken (JStr ''admin'')) gadget_request"]
  by (simp add: admin_creates_gadget plain_env_def)

text \<open>
  Claim C7, as stated, fails: the database in which the bootstrapped admin has created a
  product with the price \<open>-1\<close> is reachable, and it holds that product with that price.
\<close>

theorem negative_price_reachable:
  "reachable db_gadget \<and> products db_gadget = [gadget] \<and> price gadget = Finite (- 1)"
  using reachable_db_gadget by (simp add: db_gadget_def gadget_def)

theorem price_stored_as_converted_witness:
  "route_create_product (AccessToken (JStr ''admin'')) db0 7 gadget_request
     = (Inr (201, MsgId ''Product created'' 1), db_gadget)
   \<and> (\<exists>P. get_or_404 db_gadget 1 = Some P \<and> price P = Finite (- 1))
   \<and> route_update_product (AccessToken (JStr ''alice'')) db1 100 1 price_request
       = (Inr (200, Msg ''Product updated''), db1_repriced)
   \<and> get_or_404 db1 1 = Some widget
   \<and> (\<exists>P'. get_or_404 db1_repriced 1 = Some P' \<and> price P' = Finite 12)"
proof -
  have p: "price_request ''price'' = Some (JNum 12)"
    by (simp add: price_request_def)
  have g: "gadget_request ''price'' = Some (JNum (- 1))"
    by (simp add: gadget_request_def)
  have d: "\<not> py_eq_float (JNum 12) (price widget)"
    by (simp add: widget_def)
  from price_stored_as_converted [where tok = "AccessToken (JStr ''admin'')" and s = db0
      and now = 7 and data = gadget_request and m = "''Product created''" and i = 1
      and s' = db_gadget, THEN conjunct1] admin_creates_gadget g
  have 1: "\<exists>P. get_or_404 db_gadget 1 = Some P \<and> price P = Finite (- 1)"
    by auto
  from price_stored_as_converted [where tok = "AccessToken (JStr ''alice'')" and s = db1
      and now = 100 and pid = 1 and data = price_request and b = "Msg ''Product updated''"
      and s' = db1_repriced and P = widget, THEN conjunct2, THEN conjunct1]
    alice_price_update db1_widget p d
  have 2: "\<exists>P'. get_or_404 db1_repriced 1 = Some P' \<and> price P' = Finite 12"
    by auto
  from 1 2 admin_creates_gadget alice_price_update db1_widget show ?thesis by blast
qed

section \<open>Bodies of failure responses\<close>































end
